theory Spec2Isabelle
  imports Complex_Main "HOL-Library.Option_ord"
begin

section \<open>The league bot: store, pairing generator, season lifecycle, reports, leaderboard\<close>

text \<open>
  A shallow embedding of \<^verbatim>\<open>src/bot.py\<close>. The sqlite database is a record of its four
  tables, each a list of rows in rowid order, with the columns \<^verbatim>\<open>init_db\<close> creates;
  every command takes the store and returns its reply together with the store it leaves
  behind.

  sqlite prepares a statement before it runs it: a statement that names a column its
  table does not have raises \<^verbatim>\<open>sqlite3.OperationalError\<close>, whatever rows the table
  holds. The column lists of \<^verbatim>\<open>pending_reps\<close> and \<^verbatim>\<open>pairings\<close> are constants below,
  and each statement on these tables is checked against them (\<open>prepare\<close>) before its
  rows are read or written.

  A rating is the real number a Python float stands for; ratings are only stored,
  compared and ordered here. The arithmetic of the rating engine
  (\<^verbatim>\<open>get_expected_score\<close>, \<^verbatim>\<open>update_elo\<close> and the averaging in the settlement of a
  pairing) is binary64 arithmetic with \<^verbatim>\<open>math.pow\<close>, which rounds and can raise
  \<^verbatim>\<open>OverflowError\<close>; it is not computed here but taken as the parameter \<open>fp\<close> of the
  commands that call it.
\<close>

subsection \<open>The tables\<close>

definition INITIAL_ELO :: real where
  "INITIAL_ELO = 1380"

declare INITIAL_ELO_def [simp]

datatype py_error =
    OperationalError
  | IntegrityError
  | TypeError
  | KeyError
  | AttributeError
  | OverflowError

datatype sqlval = SqlNull | SqlInt int | SqlReal real | SqlText string

record player =
  p_id :: nat
  elo :: real
  wins :: int
  losses :: int
  draws :: int
  signed_up :: bool

record pending_rep =
  rep_id :: nat
  pairing_id :: "nat option"
  reporter_id :: "nat option"
  rep_result :: "string option"
  game_number :: "int option"
  timestamp :: int

record season =
  season_number :: nat
  active :: bool

record pairing =
  pg_id :: nat
  player1_id :: nat
  player2_id :: nat
  result1 :: "real option"
  result2 :: "real option"
  pg_season_number :: nat
  group_name :: string

record store =
  players :: "player list"
  pending_reps :: "pending_rep list"
  pending_seq :: nat
  seasons :: "season list"
  pairings :: "pairing list"
  pairings_seq :: nat

text \<open>
  The columns of \<^verbatim>\<open>pending_reps\<close> and \<^verbatim>\<open>pairings\<close> in the order of their
  \<^verbatim>\<open>CREATE TABLE\<close>, and a row as the list of its columns and values in that order
  (what \<^verbatim>\<open>SELECT *\<close> returns, read by position).
\<close>

definition pending_reps_columns :: "string list" where
  "pending_reps_columns =
     [''id'', ''pairing_id'', ''reporter_id'', ''result'', ''game_number'', ''timestamp'']"


definition prepare :: "string list \<Rightarrow> string list \<Rightarrow> bool" where
  "prepare table_columns named = list_all (\<lambda>col. col \<in> set table_columns) named"





definition nat_of_sql :: "sqlval \<Rightarrow> nat option" where
  "nat_of_sql v = (case v of SqlInt i \<Rightarrow> Some (nat i) | _ \<Rightarrow> None)"

definition int_of_sql :: "sqlval \<Rightarrow> int option" where
  "int_of_sql v = (case v of SqlInt i \<Rightarrow> Some i | _ \<Rightarrow> None)"

definition text_of_sql :: "sqlval \<Rightarrow> string option" where
  "text_of_sql v = (case v of SqlText t \<Rightarrow> Some t | _ \<Rightarrow> None)"



text \<open>The value of a named column of a row; the statement has been prepared.\<close>

definition column :: "(string \<times> sqlval) list \<Rightarrow> string \<Rightarrow> sqlval" where
  "column row name = (case map_of row name of None \<Rightarrow> SqlNull | Some v \<Rightarrow> v)"

text \<open>
  \<^verbatim>\<open>AUTOINCREMENT\<close>: the new rowid is one more than the largest rowid the table
  holds or has ever held (the second is the counter sqlite keeps beside the table).
\<close>

definition next_rowid :: "nat \<Rightarrow> nat list \<Rightarrow> nat" where
  "next_rowid seqv ids = Suc (fold max ids seqv)"

definition get_player_data :: "store \<Rightarrow> nat \<Rightarrow> player option" where
  "get_player_data s player = find (\<lambda>p. p_id p = player) (players s)"


subsection \<open>The season pairing generator\<close>

record role_range =
  rr_name :: string
  rr_min :: int
  rr_max :: int

type_synonym lb_row = "nat \<times> real \<times> int \<times> int \<times> int"

text \<open>
  What a command sends back. \<open>ErrorRaised\<close> is the reply of an
  \<^verbatim>\<open>except Exception\<close> handler, \<open>CommandFailed\<close> an exception no handler of the
  command catches, \<open>NoReply\<close> a path that sends nothing.
\<close>

datatype reply =
    WrongChannel
  | NoPlayersSignedUp
  | CouldntGroupPlayers
  | GeneratedPairings nat nat
  | AlreadyActiveSeason
  | SeasonStarted nat
  | ErrorRaised
  | CommandFailed
  | NoReply
  | InvalidResult
  | SelfReport
  | NotRegistered
  | InvalidGameNumber
  | NoPairing
  | ResultsDontMatch
  | AlreadyReported
  | SeasonReported
  | BothGamesConfirmed
  | MatchReported
  | MatchConfirmed
  | NoPendingMatch
  | ResultDoesntMatchPending
  | Canceled
  | RoleNotFound
  | NoRoleMembers
  | NoPlayersFound
  | Leaderboard nat "lb_row list" "lb_row list"
  | AlreadyRegistered
  | Registered
  | RegisterFirst
  | SignedUp
  | SeasonIsActive
  | NoActiveSeason
  | SeasonEnded nat nat

text \<open>The dictionary \<^verbatim>\<open>groups\<close>, in insertion order: role name to player ids.\<close>

fun groups_append :: "(string \<times> nat list) list \<Rightarrow> string \<Rightarrow> nat \<Rightarrow> (string \<times> nat list) list" where
  "groups_append [] name player = [(name, [player])]"
| "groups_append ((k, v) # rest) name player =
     (if k = name then (k, v @ [player]) # rest
      else (k, v) # groups_append rest name player)"

definition in_range :: "real \<Rightarrow> role_range \<Rightarrow> bool" where
  "in_range e r = (of_int (rr_min r) \<le> e \<and> e \<le> of_int (rr_max r))"

fun group_players ::
  "role_range list \<Rightarrow> (nat \<times> real) list \<Rightarrow> (string \<times> nat list) list \<Rightarrow> (string \<times> nat list) list" where
  "group_players role_ranges [] groups = groups"
| "group_players role_ranges ((player, e) # rest) groups =
     (case find (in_range e) role_ranges of
        None \<Rightarrow> group_players role_ranges rest groups
      | Some r \<Rightarrow> group_players role_ranges rest (groups_append groups (rr_name r) player))"

text \<open>
  \<^verbatim>\<open>[player_ids[i:i + subgroup_size] for i in range(0, len(player_ids), subgroup_size)]\<close>.
  The step is at least 4 at the only call; a step of 0 has no slices here.
\<close>

function chunks :: "nat \<Rightarrow> 'a list \<Rightarrow> 'a list list" where
  "chunks n xs = (if n = 0 \<or> xs = [] then [] else take n xs # chunks n (drop n xs))"
  by pat_completeness auto
termination
  by (relation "measure (\<lambda>(n, xs). length xs)") auto

declare chunks.simps [simp del]

text \<open>
  \<^verbatim>\<open>random.shuffle\<close> is the parameter \<open>shuffle\<close>: the order it leaves the list in.
\<close>

definition split_subgroups :: "(nat list \<Rightarrow> nat list) \<Rightarrow> nat list \<Rightarrow> nat list list" where
  "split_subgroups shuffle player_ids =
     (if length player_ids > 7 then
        (let shuffled = shuffle player_ids;
             subgroup_size = max 4 (length shuffled div ((length shuffled div 7) + 1))
         in chunks subgroup_size shuffled)
      else [player_ids])"

fun combinations2 :: "'a list \<Rightarrow> ('a \<times> 'a) list" where
  "combinations2 [] = []"
| "combinations2 (x # xs) = map (Pair x) xs @ combinations2 xs"

function str_nat :: "nat \<Rightarrow> string" where
  "str_nat n = (if n < 10 then [char_of (48 + n)]
                else str_nat (n div 10) @ [char_of (48 + n mod 10)])"
  by pat_completeness auto
termination
  by (relation "measure (\<lambda>n. n)") auto

declare str_nat.simps [simp del]

definition subgroup_name :: "string \<Rightarrow> nat \<Rightarrow> nat \<Rightarrow> string" where
  "subgroup_name name n_subgroups i =
     (if n_subgroups = 1 then name else name @ ''-'' @ str_nat (i + 1))"

definition insert_pairing :: "nat \<Rightarrow> string \<Rightarrow> store \<Rightarrow> nat \<times> nat \<Rightarrow> store" where
  "insert_pairing season_no name s pr =
     (let new_id = next_rowid (pairings_seq s) (map pg_id (pairings s))
      in s\<lparr>pairings := pairings s @
              [\<lparr>pg_id = new_id, player1_id = fst pr, player2_id = snd pr,
                result1 = None, result2 = None, pg_season_number = season_no,
                group_name = name\<rparr>],
            pairings_seq := new_id\<rparr>)"

definition insert_subgroups :: "nat \<Rightarrow> string \<Rightarrow> nat list list \<Rightarrow> store \<Rightarrow> store" where
  "insert_subgroups season_no name subgroups s =
     fold (\<lambda>(i, subgroup) s'.
             fold (\<lambda>pr s''. insert_pairing season_no (subgroup_name name (length subgroups) i) s'' pr)
                  (combinations2 subgroup) s')
          (zip [0 ..< length subgroups] subgroups) s"

definition generate_pairings ::
  "(nat list \<Rightarrow> nat list) \<Rightarrow> role_range list \<Rightarrow> nat \<Rightarrow> store \<Rightarrow> bool \<times> reply \<times> store" where
  "generate_pairings shuffle roles_config season_no s =
     (let signed = map (\<lambda>p. (p_id p, elo p)) (filter signed_up (players s))
      in if signed = [] then (False, NoPlayersSignedUp, s)
         else
           (let role_ranges = sort_key (\<lambda>r. - rr_min r) roles_config;
                groups = group_players role_ranges signed []
            in if groups = [] then (False, CouldntGroupPlayers, s)
               else
                 (let s' = fold (\<lambda>(name, player_ids) acc.
                                   insert_subgroups season_no name (split_subgroups shuffle player_ids) acc)
                                groups s
                  in (True,
                      GeneratedPairings (length (pairings s') - length (pairings s)) season_no,
                      s'))))"

subsection \<open>The season lifecycle\<close>

text \<open>
  \<^verbatim>\<open>SELECT ... FROM seasons ORDER BY season_number DESC LIMIT 1\<close>: the row with the
  largest season number, if the table has a row.
\<close>

fun latest_season :: "season list \<Rightarrow> season option" where
  "latest_season [] = None"
| "latest_season (x # xs) =
     (case latest_season xs of
        None \<Rightarrow> Some x
      | Some y \<Rightarrow> if season_number y > season_number x then Some y else Some x)"

definition set_active :: "nat \<Rightarrow> bool \<Rightarrow> season list \<Rightarrow> season list" where
  "set_active n b ss = map (\<lambda>x. if season_number x = n then x\<lparr>active := b\<rparr> else x) ss"

text \<open>
  \<^verbatim>\<open>start_season\<close>. The channel check is the flag \<open>allowed\<close>. The role update
  (\<^verbatim>\<open>update_player_roles\<close>) talks to the chat server and writes nothing to the
  database; its replies are left out. The value \<^verbatim>\<open>generate_pairings\<close> returns is not
  read.
\<close>

definition start_season ::
  "bool \<Rightarrow> (nat list \<Rightarrow> nat list) \<Rightarrow> role_range list \<Rightarrow> store \<Rightarrow> reply list \<times> store" where
  "start_season allowed shuffle roles_config s =
     (if \<not> allowed then ([WrongChannel], s)
      else
        (case latest_season (seasons s) of
           None \<Rightarrow> ([ErrorRaised], s)
         | Some cur \<Rightarrow>
             (if active cur then ([AlreadyActiveSeason], s)
              else
                (let current_season = season_number cur;
                     (ok, msg, s1) = generate_pairings shuffle roles_config current_season s;
                     s2 = s1\<lparr>seasons := set_active current_season True (seasons s1)\<rparr>
                 in ([msg, SeasonStarted current_season], s2)))))"

subsection \<open>Registration, signup, the end of a season\<close>

record ctx =
  author :: nat
  allowed :: bool
  now_local :: int
  now_db :: int





subsection \<open>Pending reports\<close>

text \<open>
  \<^verbatim>\<open>INSERT INTO pending_reps (...) VALUES (...)\<close> with the listed columns and values:
  the other columns are NULL, the id is the next rowid and the timestamp the database's
  clock. A value for a column the table does not have cannot be kept.
\<close>

definition pending_of :: "nat \<Rightarrow> int \<Rightarrow> (string \<times> sqlval) list \<Rightarrow> pending_rep" where
  "pending_of new_id ts vals =
     \<lparr>rep_id = new_id, pairing_id = nat_of_sql (column vals ''pairing_id''),
      reporter_id = nat_of_sql (column vals ''reporter_id''),
      rep_result = text_of_sql (column vals ''result''),
      game_number = int_of_sql (column vals ''game_number''), timestamp = ts\<rparr>"

definition insert_pending :: "ctx \<Rightarrow> (string \<times> sqlval) list \<Rightarrow> store \<Rightarrow> py_error + store" where
  "insert_pending c vals s =
     (if prepare pending_reps_columns (map fst vals) then
        (let new_id = next_rowid (pending_seq s) (map rep_id (pending_reps s))
         in Inr (s\<lparr>pending_reps := pending_reps s @ [pending_of new_id (now_db c) vals],
                   pending_seq := new_id\<rparr>))
      else Inl OperationalError)"

text \<open>
  \<^verbatim>\<open>add_pending_rep\<close>:
  \<^verbatim>\<open>INSERT INTO pending_reps (reporter_id, opponent_id, reporter_result) VALUES (?, ?, ?)\<close>.
\<close>

definition add_pending_rep :: "ctx \<Rightarrow> nat \<Rightarrow> nat \<Rightarrow> string \<Rightarrow> store \<Rightarrow> py_error + store" where
  "add_pending_rep c reporter opponent reporter_res s =
     insert_pending c
       [(''reporter_id'', SqlInt (int reporter)), (''opponent_id'', SqlInt (int opponent)),
        (''reporter_result'', SqlText reporter_res)] s"





subsection \<open>Reporting a match\<close>


definition lower_char :: "char \<Rightarrow> char" where
  "lower_char ch = (if 65 \<le> (of_char ch :: nat) \<and> (of_char ch :: nat) \<le> 90
                    then char_of ((of_char ch :: nat) + 32) else ch)"


















subsection \<open>The leaderboard\<close>

text \<open>
  Arguments are ASCII strings: \<^verbatim>\<open>isdigit\<close> holds of a non-empty string of the
  digits 0 to 9, and \<^verbatim>\<open>int\<close> reads it in base ten.
\<close>

definition is_digit_char :: "char \<Rightarrow> bool" where
  "is_digit_char ch = (48 \<le> (of_char ch :: nat) \<and> (of_char ch :: nat) \<le> 57)"

definition isdigit :: "string \<Rightarrow> bool" where
  "isdigit arg = (arg \<noteq> [] \<and> list_all is_digit_char arg)"

definition py_int :: "string \<Rightarrow> nat" where
  "py_int arg = foldl (\<lambda>a ch. 10 * a + ((of_char ch :: nat) - 48)) 0 arg"

fun parse_args :: "string list \<Rightarrow> nat \<times> string option \<Rightarrow> nat \<times> string option" where
  "parse_args [] st = st"
| "parse_args (arg # rest) (limit, role_name) =
     (if isdigit arg then parse_args rest (min (max 1 (py_int arg)) 25, role_name)
      else parse_args rest
             (limit, (case role_name of None \<Rightarrow> Some arg | Some r \<Rightarrow> Some (r @ '' '' @ arg))))"

text \<open>
  The chat server's roles are the parameter \<open>guild_roles\<close>: each role's name and the
  ids of its members, in the server's order.
\<close>

definition find_role :: "(string \<times> nat list) list \<Rightarrow> string \<Rightarrow> (string \<times> nat list) option" where
  "find_role guild_roles role_name =
     find (\<lambda>(name, members). map lower_char name = map lower_char role_name) guild_roles"

definition lb_select :: "player \<Rightarrow> lb_row" where
  "lb_select p = (p_id p, elo p, wins p, losses p, draws p)"

text \<open>
  \<^verbatim>\<open>SELECT id, elo, wins, losses, draws FROM players [WHERE id IN (...)] ORDER BY elo DESC\<close>,
  before \<^verbatim>\<open>LIMIT\<close> and \<^verbatim>\<open>OFFSET\<close>.
\<close>

definition lb_query :: "nat list option \<Rightarrow> store \<Rightarrow> lb_row list" where
  "lb_query member_ids s =
     map lb_select
       (sort_key (\<lambda>p. - elo p)
          (filter (\<lambda>p. case member_ids of None \<Rightarrow> True | Some ids \<Rightarrow> p_id p \<in> set ids)
                  (players s)))"

definition lb_fetch :: "nat \<Rightarrow> nat list option \<Rightarrow> nat \<Rightarrow> store \<Rightarrow> reply" where
  "lb_fetch limit member_ids user s =
     (let rows = lb_query member_ids s;
          top_players = take limit rows;
          user_surrounding =
            (case get_player_data s user of
               None \<Rightarrow> []
             | Some user_data \<Rightarrow>
                 (let user_rank = length (filter (\<lambda>r. fst (snd r) > elo user_data) rows) + 1;
                      show_user_stats =
                        (case member_ids of None \<Rightarrow> True | Some ids \<Rightarrow> user \<in> set ids)
                  in (if user_rank > limit \<and> show_user_stats
                      then take 3 (drop (user_rank - 2) rows) else [])))
      in (if top_players = [] \<and> user_surrounding = [] then NoPlayersFound
          else Leaderboard limit top_players user_surrounding))"

definition show_leaderboard ::
  "ctx \<Rightarrow> (string \<times> nat list) list \<Rightarrow> string list \<Rightarrow> store \<Rightarrow> reply" where
  "show_leaderboard c guild_roles args s =
     (if \<not> allowed c then WrongChannel
      else
        (let (limit, role_name) = parse_args args (10, None)
         in (case role_name of
               None \<Rightarrow> lb_fetch limit None (author c) s
             | Some rn \<Rightarrow>
                 (if rn = [] then lb_fetch limit None (author c) s
                  else
                    (case find_role guild_roles rn of
                       None \<Rightarrow> RoleNotFound
                     | Some (name, members) \<Rightarrow>
                         (if members = [] then NoRoleMembers
                          else lb_fetch limit (Some members) (author c) s))))))"

subsection \<open>Concrete stores and inputs\<close>

text \<open>A player as \<^verbatim>\<open>register_player\<close> inserts it, with the given signup flag.\<close>

definition new_player :: "nat \<Rightarrow> bool \<Rightarrow> player" where
  "new_player i su =
     \<lparr>p_id = i, elo = INITIAL_ELO, wins = 0, losses = 0, draws = 0, signed_up = su\<rparr>"

text \<open>The database after \<^verbatim>\<open>init_db\<close> and the registration of the given players.\<close>

definition open_store :: "player list \<Rightarrow> store" where
  "open_store ps =
     \<lparr>players = ps, pending_reps = [], pending_seq = 0,
      seasons = [\<lparr>season_number = 1, active = False\<rparr>], pairings = [], pairings_seq = 0\<rparr>"

definition gold_only :: "role_range list" where
  "gold_only = [\<lparr>rr_name = ''Gold'', rr_min = 1500, rr_max = 2000\<rparr>]"

definition two_players :: store where
  "two_players = open_store [new_player 1 False, (new_player 2 False)\<lparr>elo := 1400\<rparr>]"

definition author1 :: ctx where
  "author1 = \<lparr>author = 1, allowed = True, now_local = 10000, now_db = 10000\<rparr>"


subsection \<open>The states the program reaches\<close>










subsection \<open>Starting a season\<close>

lemma start_season_already_active:
  "latest_season (seasons s) = Some cur \<Longrightarrow> active cur \<Longrightarrow>
   start_season True shuffle roles_config s = ([AlreadyActiveSeason], s)"
  by (simp add: start_season_def)

lemma generate_pairings_failure_keeps_store:
  "generate_pairings shuffle roles_config n s = (False, msg, s') \<Longrightarrow> s' = s"
  by (auto simp: generate_pairings_def Let_def split: if_splits)

lemma start_season_after_failed_generation:
  assumes "latest_season (seasons s) = Some cur" and "\<not> active cur"
    and "generate_pairings shuffle roles_config (season_number cur) s = (False, msg, s')"
  shows "start_season True shuffle roles_config s =
           ([msg, SeasonStarted (season_number cur)],
            s\<lparr>seasons := set_active (season_number cur) True (seasons s)\<rparr>)"
proof -
  have "s' = s" using assms(3) by (rule generate_pairings_failure_keeps_store)
  then show ?thesis using assms by (simp add: start_season_def Let_def)
qed

text \<open>
  C1. \<^verbatim>\<open>start_season\<close> on an open season 1: with one registered player who has not
  signed up, pairing generation fails (no player has signed up); with one signed-up
  player rated 1380 and the only tier from 1500 to 2000, it fails too (no player is in a
  tier). Both times no pairing is written and the season is marked active all the same.
\<close>

theorem start_season_failed_generation_activates:
  "start_season True (\<lambda>xs. xs) gold_only (open_store [new_player 1 False])
     = ([NoPlayersSignedUp, SeasonStarted 1],
        (open_store [new_player 1 False])\<lparr>seasons := [\<lparr>season_number = 1, active = True\<rparr>]\<rparr>)
   \<and> start_season True (\<lambda>xs. xs) gold_only (open_store [new_player 1 True])
     = ([CouldntGroupPlayers, SeasonStarted 1],
        (open_store [new_player 1 True])\<lparr>seasons := [\<lparr>season_number = 1, active = True\<rparr>]\<rparr>)"
  by (simp add: start_season_def open_store_def new_player_def gold_only_def
      generate_pairings_def set_active_def in_range_def)

subsection \<open>Subgroups of a tier\<close>

lemma chunks_sizes:
  "0 < n \<Longrightarrow> x \<in> set (chunks n xs) \<Longrightarrow> 1 \<le> length x \<and> length x \<le> n"
proof (induction n xs rule: chunks.induct)
  case (1 n xs)
  show ?case
  proof (cases "xs = []")
    case True
    then show ?thesis using "1.prems" by (simp add: chunks.simps)
  next
    case False
    then have "x = take n xs \<or> x \<in> set (chunks n (drop n xs))"
      using "1.prems" by (subst (asm) chunks.simps) auto
    then show ?thesis
    proof
      assume "x = take n xs"
      then show ?thesis using False "1.prems"(1) by (cases xs) auto
    next
      assume "x \<in> set (chunks n (drop n xs))"
      then show ?thesis using "1.IH" False "1.prems"(1) by simp
    qed
  qed
qed

lemma concat_chunks: "0 < n \<Longrightarrow> concat (chunks n xs) = xs"
proof (induction n xs rule: chunks.induct)
  case (1 n xs)
  show ?case
  proof (cases "xs = []")
    case True
    then show ?thesis by (simp add: chunks.simps)
  next
    case False
    then show ?thesis using 1 by (subst chunks.simps) simp
  qed
qed

lemma subgroup_size_bounds:
  "4 \<le> max 4 (n div (n div 7 + 1)) \<and> max 4 (n div (n div 7 + 1)) \<le> (7::nat)"
proof -
  have "n < 7 * (n div 7 + 1)" by (simp add: dividend_less_times_div)
  then have "n div (n div 7 + 1) < 7" by (simp add: div_less_iff_less_mult mult.commute)
  then show ?thesis by simp
qed

lemma split_subgroups_sizes:
  assumes "g \<in> set (split_subgroups shuffle player_ids)" and "player_ids \<noteq> []"
  shows "1 \<le> length g \<and> length g \<le> 7"
proof (cases "length player_ids > 7")
  case True
  let ?n = "length (shuffle player_ids)"
  have "g \<in> set (chunks (max 4 (?n div (?n div 7 + 1))) (shuffle player_ids))"
    using assms True by (simp add: split_subgroups_def Let_def)
  moreover have "0 < max 4 (?n div (?n div 7 + 1))" by simp
  ultimately have "1 \<le> length g \<and> length g \<le> max 4 (?n div (?n div 7 + 1))"
    using chunks_sizes by blast
  then show ?thesis using subgroup_size_bounds [of ?n] by linarith
next
  case False
  then show ?thesis using assms by (cases player_ids) (simp_all add: split_subgroups_def)
qed

lemma split_subgroups_small:
  "length player_ids \<le> 7 \<Longrightarrow> split_subgroups shuffle player_ids = [player_ids]"
  by (simp add: split_subgroups_def)

text \<open>
  C5. A tier of nine players, left in their order by the shuffle, is cut into subgroups
  of 4, 4 and 1 players: the last one is below the minimum of 4.
\<close>

theorem split_subgroups_nine_players:
  "map length (split_subgroups (\<lambda>xs. xs) [1, 2, 3, 4, 5, 6, 7, 8, 9]) = [4, 4, 1]"
  by code_simp

subsection \<open>The leaderboard: size and order\<close>

lemma parse_args_limit:
  "fst (parse_args args (l, r)) =
     (if filter isdigit args = [] then l
      else min (max 1 (py_int (last (filter isdigit args)))) 25)"
  by (induction args arbitrary: l r) auto

lemma lb_query_sorted: "sorted_wrt (\<ge>) (map (fst \<circ> snd) (lb_query member_ids s))"
proof -
  let ?rows = "sort_key (\<lambda>p. - elo p)
          (filter (\<lambda>p. case member_ids of None \<Rightarrow> True | Some ids \<Rightarrow> p_id p \<in> set ids)
                  (players s))"
  have "sorted (map (\<lambda>p. - elo p) ?rows)" by (rule sorted_sort_key)
  then have "sorted_wrt (\<lambda>x y. elo x \<ge> elo y) ?rows"
    by (simp add: sorted_wrt_map)
  then have "sorted_wrt (\<ge>) (map elo ?rows)" by (simp add: sorted_wrt_map)
  moreover have "map (fst \<circ> snd) (lb_query member_ids s) = map elo ?rows"
    by (simp add: lb_query_def lb_select_def)
  ultimately show ?thesis by simp
qed

lemma lb_fetch_top:
  "lb_fetch limit member_ids user s = Leaderboard n top_players user_surrounding \<Longrightarrow>
   n = limit \<and> top_players = take limit (lb_query member_ids s)"
  by (auto simp: lb_fetch_def Let_def split: if_splits)

text \<open>
  C10. Whenever \<^verbatim>\<open>show_leaderboard\<close> shows a leaderboard, its size is 10 if no
  argument is a number, and otherwise the last numeric argument clamped into 1 to 25; in
  both cases it lies between 1 and 25. The players shown are at most that many, in
  descending order of rating (the second component of a row).
\<close>

theorem show_leaderboard_limit_and_order:
  assumes "show_leaderboard c guild_roles args s = Leaderboard limit top_players user_surrounding"
  shows "1 \<le> limit \<and> limit \<le> 25
       \<and> limit = (if filter isdigit args = [] then 10
                  else min (max 1 (py_int (last (filter isdigit args)))) 25)
       \<and> length top_players \<le> limit
       \<and> sorted_wrt (\<ge>) (map (fst \<circ> snd) top_players)"
proof -
  obtain l rn where pa: "parse_args args (10, None) = (l, rn)"
    by (cases "parse_args args (10, None)")
  have l_eq: "l = (if filter isdigit args = [] then 10
                  else min (max 1 (py_int (last (filter isdigit args)))) 25)"
    using parse_args_limit [of args 10 None] pa by simp
  obtain m where fetch: "lb_fetch l m (author c) s = Leaderboard limit top_players user_surrounding"
    using assms pa
    by (auto simp: show_leaderboard_def split: if_splits option.splits prod.splits)
  from lb_fetch_top [OF fetch] have lim: "limit = l" and top: "top_players = take l (lb_query m s)"
    by simp_all
  have "sorted_wrt (\<ge>) (map (fst \<circ> snd) (take l (lb_query m s)))"
    using lb_query_sorted [of m s] by (simp add: take_map [symmetric])
  moreover have "1 \<le> l \<and> l \<le> 25" using l_eq by auto
  ultimately show ?thesis using lim top l_eq by simp
qed

theorem show_leaderboard_limit_and_order_witness:
  "show_leaderboard author1 [] [''50''] two_players
     = Leaderboard 25 [(2, 1400, 0, 0, 0), (1, 1380, 0, 0, 0)] []
   \<and> filter isdigit [''50''] = [''50''] \<and> py_int ''50'' = 50
   \<and> (25::nat) = min (max 1 (py_int ''50'')) 25
   \<and> sorted_wrt (\<ge>) (map (fst \<circ> snd) [(2::nat, 1400::real, 0::int, 0::int, 0::int), (1, 1380, 0, 0, 0)])"
proof -
  have shown: "show_leaderboard author1 [] [''50''] two_players
     = Leaderboard 25 [(2, 1400, 0, 0, 0), (1, 1380, 0, 0, 0)] []"
    by (simp add: show_leaderboard_def author1_def two_players_def open_store_def new_player_def
        isdigit_def is_digit_char_def py_int_def lb_fetch_def lb_query_def lb_select_def
        get_player_data_def)
  have digits: "filter isdigit [''50''] = [''50''] \<and> py_int ''50'' = 50"
    by (simp add: isdigit_def is_digit_char_def py_int_def)
  from show_leaderboard_limit_and_order [OF shown] digits shown show ?thesis by simp
qed

subsection \<open>Statements that name a missing column\<close>


lemma add_pending_rep_raises: "add_pending_rep c reporter opponent res s = Inl OperationalError"
  by (simp add: add_pending_rep_def insert_pending_def prepare_def pending_reps_columns_def)







subsection \<open>What every reachable state satisfies\<close>













subsection \<open>Season reports\<close>




subsection \<open>Freeform reports\<close>






end
